theory Spec2Isabelle
  imports Main
begin

section \<open>The shell application of src/app.ts\<close>

text \<open>
  The class \<open>App\<close> of \<open>src/app.ts\<close> owns a registry of named top-level windows, closes them
  with an optional delay, and exports a handful of methods on the session bus. The
  development embeds its methods as functions on an explicit application state. Everything
  the methods do to the outside (signals emitted, toolkit calls, console output, bus calls,
  the request to quit) is appended to one trace, in program order.
\<close>

subsection \<open>Data\<close>

text \<open>
  A \<open>Gtk.Window\<close> is an object: the registry, the timers' closures and the callers share
  it by reference. Objects live in a store indexed by handles. Of a window the code reads
  \<open>name\<close> and \<open>visible\<close>; \<open>shown\<close> is the text the object gives inside a template
  string, and \<open>notify_handlers\<close> counts the \<open>notify::visible\<close> handlers that
  \<open>addWindow\<close> has connected to it.
\<close>

type_synonym handle = nat

record gtk_window =
  wname :: string
  shown :: string
  visible :: bool
  notify_handlers :: nat

text \<open>A thrown JavaScript error: its \<open>name\<close> and its \<open>message\<close>.\<close>

datatype js_error = JsError (ename: string) (emessage: string)

datatype signal = WindowToggled string bool | ConfigParsed

text \<open>
  A call on the session bus, \<open>Gio.DBus.session.call(bus, path, iface, method, (s))\<close>. The
  caller's bus name and object path are optional arguments of \<open>RunJs\<close>, so they may be
  absent (\<open>undefined\<close>) in the call.
\<close>

datatype bus_method = Return | Print

record bus_call =
  bus_name :: "string option"
  object_path :: "string option"
  interface_name :: "string option"
  method_name :: bus_method
  body :: string

datatype effect =
    Emit signal
  | GtkShow handle
  | GtkHide handle
  | ConsoleError string
  | ConsoleWarn string
  | LogError js_error
  | PrintOut string
  | BusCall bus_call
  | AddCssProvider string
  | AppendSearchPath string
  | Unhandled js_error
  | Quit

text \<open>
  The fields of \<open>App\<close>. \<open>app_closeDelay\<close> is \<open>None\<close> while \<open>_closeDelay\<close> is still
  undefined, that is until \<open>_load\<close> has assigned it. \<open>timers\<close> holds the pending one-shot
  timers of the main loop: the milliseconds left and the window whose \<open>hide\<close> the callback
  calls. \<open>listeners\<close> counts the \<open>window-toggled\<close> callbacks connected for the
  configuration. \<open>interval_of_object\<close> is what the platform does when a timer is asked
  for with a delay that is not a number but an object: the interval it takes, or the error
  it throws.
\<close>

record app =
  store :: "handle \<Rightarrow> gtk_window"
  app_windows :: "string \<rightharpoonup> handle"
  app_closeDelay :: "(string \<rightharpoonup> nat) option"
  app_cssProviders :: "string list"
  app_configPath :: string
  app_configDir :: string
  listeners :: nat
  interval_of_object :: "js_error + nat"
  timers :: "(nat \<times> handle) list"
  trace :: "effect list"

subsection \<open>The toolkit and the main loop\<close>

definition effect :: "effect \<Rightarrow> app \<Rightarrow> app" where
  "effect e s = s\<lparr>trace := trace s @ [e]\<rparr>"

text \<open>\<open>this.emit(...)\<close>.\<close>

definition emit :: "signal \<Rightarrow> app \<Rightarrow> app" where
  "emit sg s = effect (Emit sg) s"

text \<open>
  A change of a window's \<open>visible\<close> property runs every handler that \<open>addWindow\<close>
  connected (line 199): each emits \<open>window-toggled\<close> with the window's name and its new
  visibility.
\<close>

definition notify_visible :: "handle \<Rightarrow> app \<Rightarrow> app" where
  "notify_visible h s =
     s\<lparr>trace := trace s @
        replicate (notify_handlers (store s h))
          (Emit (WindowToggled (wname (store s h)) (visible (store s h))))\<rparr>"

text \<open>
  \<open>w.show()\<close> and \<open>w.hide()\<close> of the toolkit: the property changes, and its handlers run,
  only when the window is not already in the requested state.
\<close>

definition gtk_show :: "handle \<Rightarrow> app \<Rightarrow> app" where
  "gtk_show h s =
     (let s1 = effect (GtkShow h) s in
      if visible (store s1 h) then s1
      else notify_visible h (s1\<lparr>store := (store s1)(h := (store s1 h)\<lparr>visible := True\<rparr>)\<rparr>))"

definition gtk_hide :: "handle \<Rightarrow> app \<Rightarrow> app" where
  "gtk_hide h s =
     (let s1 = effect (GtkHide h) s in
      if \<not> visible (store s1 h) then s1
      else notify_visible h (s1\<lparr>store := (store s1)(h := (store s1 h)\<lparr>visible := False\<rparr>)\<rparr>))"

text \<open>
  Modelled from the spec: \<open>timeout\<close> of \<open>utils.js\<close> is not among the sources. The spec's
  close-delay timer is a one-shot timer: its callback runs once, after the delay has
  elapsed. The callback of line 161 is \<open>() => w.hide()\<close>, so a pending timer is the time
  left and the window. \<open>closeWindow\<close> drops the value \<open>timeout\<close> returns, and nothing in
  \<open>app.ts\<close> removes a timer.
\<close>

definition timeout :: "nat \<Rightarrow> handle \<Rightarrow> app \<Rightarrow> app" where
  "timeout ms h s = s\<lparr>timers := timers s @ [(ms, h)]\<rparr>"

text \<open>
  Modelled from the spec: the main loop lets \<open>t\<close> milliseconds pass. The timers that are
  due run their callbacks, earliest first, and leave the queue; the others have \<open>t\<close>
  milliseconds less to wait.
\<close>

definition due :: "nat \<Rightarrow> nat \<times> handle \<Rightarrow> bool" where
  "due t tm = (fst tm \<le> t)"

definition elapse :: "nat \<Rightarrow> app \<Rightarrow> app" where
  "elapse t s =
     fold (\<lambda>tm. gtk_hide (snd tm)) (sort_key fst (filter (due t) (timers s)))
       (s\<lparr>timers := map (\<lambda>tm. (fst tm - t, snd tm)) (filter (\<lambda>tm. \<not> due t tm) (timers s))\<rparr>)"

text \<open>The callbacks of a list of timers, run in order.\<close>

abbreviation hides :: "(nat \<times> handle) list \<Rightarrow> app \<Rightarrow> app" where
  "hides xs s \<equiv> fold (\<lambda>tm. gtk_hide (snd tm)) xs s"

subsection \<open>The window registry\<close>

text \<open>\<open>getWindow\<close> (lines 169-175): the window, if any, and an error on the console if none.\<close>

definition getWindow :: "string \<Rightarrow> app \<Rightarrow> handle option \<times> app" where
  "getWindow name s =
     (case app_windows s name of
        None \<Rightarrow> (None, effect (ConsoleError (''There is no window named '' @ name)) s)
      | Some h \<Rightarrow> (Some h, s))"

text \<open>\<open>openWindow\<close> (lines 150-152).\<close>

definition openWindow :: "string \<Rightarrow> app \<Rightarrow> app" where
  "openWindow name s =
     (case getWindow name s of
        (None, s1) \<Rightarrow> s1
      | (Some h, s1) \<Rightarrow> gtk_show h s1)"

text \<open>
  The delay table is a plain object (line 223: the configuration's object, or \<open>{}\<close>), and
  \<open>this._closeDelay[name]\<close> is a property read. The map holds the object's own
  properties, which are numbers. A name that is not among them is looked up in
  \<open>Object.prototype\<close>, whose members are functions (and, for \<open>__proto__\<close>, an object).
\<close>

definition object_prototype :: "string list" where
  "object_prototype =
     [''constructor'', ''toString'', ''toLocaleString'', ''valueOf'', ''hasOwnProperty'',
      ''isPrototypeOf'', ''propertyIsEnumerable'', ''__defineGetter__'', ''__defineSetter__'',
      ''__lookupGetter__'', ''__lookupSetter__'', ''__proto__'']"

datatype js_property = Undefined | Number nat | Inherited

definition get_property :: "(string \<rightharpoonup> nat) \<Rightarrow> string \<Rightarrow> js_property" where
  "get_property obj key =
     (case obj key of
        Some n \<Rightarrow> Number n
      | None \<Rightarrow> if key \<in> set object_prototype then Inherited else Undefined)"

text \<open>
  \<open>closeWindow\<close> (lines 154-167). Reading \<open>this._closeDelay[name]\<close> throws a \<open>TypeError\<close>
  while \<open>_closeDelay\<close> is undefined. In the test \<open>delay && w.visible\<close> the value
  \<open>undefined\<close> is as false as the number 0, and an inherited member is true: it is
  handed to \<open>timeout\<close> as the delay.
\<close>

definition closeWindow :: "string \<Rightarrow> app \<Rightarrow> js_error + app" where
  "closeWindow name s =
     (case getWindow name s of
        (None, s1) \<Rightarrow> Inr s1
      | (Some h, s1) \<Rightarrow>
          if \<not> visible (store s1 h) then Inr s1
          else (case app_closeDelay s1 of
                  None \<Rightarrow> Inl (JsError ''TypeError'' ''this._closeDelay is undefined'')
                | Some tbl \<Rightarrow>
                    (case get_property tbl name of
                       Undefined \<Rightarrow> Inr (gtk_hide h s1)
                     | Number delay \<Rightarrow>
                         if delay \<noteq> 0 \<and> visible (store s1 h)
                         then Inr (emit (WindowToggled name False) (timeout delay h s1))
                         else Inr (gtk_hide h s1)
                     | Inherited \<Rightarrow>
                         if visible (store s1 h)
                         then (case interval_of_object s1 of
                                 Inl e \<Rightarrow> Inl e
                               | Inr ms \<Rightarrow>
                                   Inr (emit (WindowToggled name False) (timeout ms h s1)))
                         else Inr (gtk_hide h s1))))"

text \<open>
  \<open>toggleWindow\<close> (lines 142-148) returns a diagnostic string for an unknown name and
  nothing (\<open>undefined\<close>) otherwise.
\<close>

definition toggleWindow :: "string \<Rightarrow> app \<Rightarrow> js_error + (string option \<times> app)" where
  "toggleWindow name s =
     (case getWindow name s of
        (None, s1) \<Rightarrow> Inr (Some (''There is no window named '' @ name), s1)
      | (Some h, s1) \<Rightarrow>
          if visible (store s1 h)
          then (case closeWindow name s1 of Inl e \<Rightarrow> Inl e | Inr s2 \<Rightarrow> Inr (None, s2))
          else Inr (None, openWindow name s1))"

text \<open>
  \<open>addWindow\<close> (lines 190-209). Its argument is any JavaScript value: the first test is
  \<open>instanceof Gtk.Window\<close>; a value that fails it is given by its text and its
  \<open>typeof\<close>. The handler is connected before the registry is consulted. \<open>ConsoleError\<close>
  carries the message of the \<open>Error\<close> that is logged.
\<close>

datatype js_value = Window handle | NotWindow string string

definition addWindow :: "js_value \<Rightarrow> app \<Rightarrow> app" where
  "addWindow v s =
     (case v of
        NotWindow txt ty \<Rightarrow>
          effect (ConsoleError (txt @ '' is not an instanceof Gtk.Window, ''
                                @ '' but it is of type '' @ ty)) s
      | Window h \<Rightarrow>
          let w = store s h in
          if wname w = [] then effect (ConsoleError (shown w @ '' has no name'')) s
          else
            let s1 = s\<lparr>store := (store s)(h := w\<lparr>notify_handlers := Suc (notify_handlers w)\<rparr>)\<rparr> in
            if app_windows s1 (wname w) \<noteq> None
            then effect Quit
                   (effect (ConsoleError (''There is already a window named'' @ wname w)) s1)
            else s1\<lparr>app_windows := (app_windows s1)(wname w \<mapsto> h)\<rparr>)"

text \<open>
  \<open>ToggleWindow\<close> (lines 343-346), the bus method: the string is \<open>true\<close>, \<open>false\<close>, or
  \<open>undefined\<close> when there is no such window.
\<close>

definition ToggleWindow :: "string \<Rightarrow> app \<Rightarrow> js_error + (string \<times> app)" where
  "ToggleWindow name s =
     (case toggleWindow name s of
        Inl e \<Rightarrow> Inl e
      | Inr (_, s1) \<Rightarrow>
          (case getWindow name s1 of
             (None, s2) \<Rightarrow> Inr (''undefined'', s2)
           | (Some h, s2) \<Rightarrow> Inr (if visible (store s2 h) then ''true'' else ''false'', s2)))"

subsection \<open>Loading the configuration\<close>

text \<open>
  The default export of the user's entry file (interface \<open>Config\<close>, lines 35-49). A field
  is \<open>None\<close> when it is undefined. \<open>onWindowToggled\<close> only records whether the field is a
  function; \<open>onConfigParsed\<close> is user code that is handed the application and may throw.
\<close>

record config =
  windows :: "js_value list option"
  style :: "string option"
  icons :: "string option"
  onWindowToggled :: bool
  onConfigParsed :: "(app \<Rightarrow> js_error option \<times> app) option"
  closeWindowDelay :: "(string \<rightharpoonup> nat) option"
  notificationPopupTimeout :: "nat option"
  notificationForceTimeout :: "bool option"
  cacheNotificationActions :: "bool option"
  cacheCoverArt :: "bool option"
  maxStreamVolume :: "nat option"

text \<open>\<open>deprecated\<close> (lines 12-30), with its local function \<open>warning\<close>.\<close>

definition warning :: "string \<Rightarrow> string \<Rightarrow> app \<Rightarrow> app" where
  "warning old new s =
     effect (ConsoleWarn (old @ '' config option has been removed: use '' @ new @ '' instead'')) s"

definition deprecated :: "config \<Rightarrow> app \<Rightarrow> app" where
  "deprecated cfg s =
     (let s1 = (if notificationPopupTimeout cfg \<noteq> None
                then warning ''notificationPopupTimeout'' ''Notifications.popupTimeout'' s else s);
          s2 = (if notificationForceTimeout cfg \<noteq> None
                then warning ''notificationForceTimeout'' ''Notifications.forceTimeout'' s1 else s1);
          s3 = (if cacheNotificationActions cfg \<noteq> None
                then warning ''cacheNotificationActions'' ''Notifications.cacheActions'' s2 else s2);
          s4 = (if cacheCoverArt cfg \<noteq> None
                then warning ''cacheCoverArt'' ''Mpris.cacheCoverArt'' s3 else s3)
      in if maxStreamVolume cfg \<noteq> None
         then warning ''cacheCoverArt'' ''Audio.maxStreamVolume'' s4 else s4)"

text \<open>
  What the code needs of the platform: whether there is a default screen, whether loading
  a style sheet throws, and whether a call on the session bus throws.
\<close>

record platform =
  has_screen :: bool
  load_from_path :: "string \<Rightarrow> js_error option"
  session_call :: "bus_call \<Rightarrow> js_error option"

text \<open>
  \<open>applyCss\<close> (lines 85-112): the \<open>try ... finally\<close> around \<open>load_from_path\<close> has no
  \<open>catch\<close>, so an error of the loader leaves the method.
\<close>

definition applyCss :: "platform \<Rightarrow> string \<Rightarrow> app \<Rightarrow> js_error option \<times> app" where
  "applyCss pf path s =
     (if \<not> has_screen pf then (None, effect (ConsoleError ''couldn't get screen'') s)
      else (case load_from_path pf path of
              Some e \<Rightarrow> (Some e, s)
            | None \<Rightarrow> (None, (effect (AddCssProvider path) s)
                                \<lparr>app_cssProviders := app_cssProviders s @ [path]\<rparr>)))"

text \<open>A path that starts with a dot is taken relative to the configuration directory.\<close>

definition resolve :: "string \<Rightarrow> string \<Rightarrow> string" where
  "resolve dir p = (if take 1 p = ''.'' then dir @ drop 1 p else p)"

text \<open>\<open>String.prototype.includes\<close>.\<close>

fun str_includes :: "string \<Rightarrow> string \<Rightarrow> bool" where
  "str_includes [] sub = (sub = [])"
| "str_includes (c # cs) sub = (take (length sub) (c # cs) = sub \<or> str_includes cs sub)"

text \<open>A string or an optional string in a condition: empty and undefined are false.\<close>

definition truthy :: "string option \<Rightarrow> bool" where
  "truthy x = (case x of None \<Rightarrow> False | Some v \<Rightarrow> v \<noteq> [])"

text \<open>
  The \<open>try\<close> block of \<open>_load\<close> from line 220 on, for a configuration that is present:
  the error that left the block, if any, and the state it left behind.
\<close>

definition load_config :: "platform \<Rightarrow> config \<Rightarrow> app \<Rightarrow> js_error option \<times> app" where
  "load_config pf cfg s =
     (let s1 = deprecated cfg s;
          s2 = s1\<lparr>app_closeDelay :=
                    Some (case closeWindowDelay cfg of None \<Rightarrow> Map.empty | Some tbl \<Rightarrow> tbl)\<rparr>
      in (case (if truthy (style cfg)
                then applyCss pf (resolve (app_configDir s2) (the (style cfg))) s2
                else (None, s2)) of
            (Some e, s3) \<Rightarrow> (Some e, s3)
          | (None, s3) \<Rightarrow>
              (let s4 = (if truthy (icons cfg)
                         then effect (AppendSearchPath
                                        (resolve (app_configDir s3) (the (icons cfg)))) s3
                         else s3);
                   s5 = (if onWindowToggled cfg then s4\<lparr>listeners := Suc (listeners s4)\<rparr>
                         else s4);
                   s6 = (case windows cfg of None \<Rightarrow> s5 | Some ws \<Rightarrow> fold addWindow ws s5)
               in (case (case onConfigParsed cfg of None \<Rightarrow> (None, s6) | Some f \<Rightarrow> f s6) of
                     (Some e, s7) \<Rightarrow> (Some e, s7)
                   | (None, s7) \<Rightarrow> (None, emit ConfigParsed s7)))))"

text \<open>
  What \<open>await import(...)\<close> gives: it throws, or it yields a module whose default export
  may be missing.
\<close>

datatype import_result = Throws js_error | Module "config option"

text \<open>The \<open>catch\<close> block of \<open>_load\<close> (lines 244-253).\<close>

definition load_failed :: "js_error \<Rightarrow> app \<Rightarrow> app" where
  "load_failed err s =
     (let s1 = effect (LogError err) s;
          msg = ''Unable to load file from: file://'' @ app_configPath s1
      in if ename err = ''ImportError'' \<and> str_includes (emessage err) msg
         then effect Quit
                (effect (PrintOut (''config file not found: '' @ [CHR 0x22] @ app_configPath s1
                                   @ [CHR 0x22])) s1)
         else s1)"

text \<open>\<open>_load\<close> (lines 211-254).\<close>

definition load :: "platform \<Rightarrow> import_result \<Rightarrow> app \<Rightarrow> app" where
  "load pf entry s =
     (case (case entry of
              Throws e \<Rightarrow> (Some e, s)
            | Module None \<Rightarrow>
                (None, emit ConfigParsed (effect (ConsoleError ''Missing default export'') s))
            | Module (Some cfg) \<Rightarrow> load_config pf cfg s) of
        (None, s1) \<Rightarrow> s1
      | (Some err, s1) \<Rightarrow> load_failed err s1)"

subsection \<open>Running scripts\<close>

text \<open>
  The text \<open>`${err}`\<close> of an error object: its name and its message, joined by a colon
  when neither is empty.
\<close>

definition error_text :: "js_error \<Rightarrow> string" where
  "error_text e =
     (if ename e = [] then emessage e
      else if emessage e = [] then ename e
      else ename e @ '': '' @ emessage e)"

text \<open>
  The local function \<open>dbus\<close> of \<open>RunJs\<close> (lines 283-287): a call to the client's bus name
  and object path, with the bus name as the interface too. The arguments are passed as
  they came, also when they are undefined.
\<close>

definition dbus ::
  "platform \<Rightarrow> string option \<Rightarrow> string option \<Rightarrow> bus_method \<Rightarrow> string \<Rightarrow> app
     \<Rightarrow> js_error option \<times> app" where
  "dbus pf clientBusName clientObjPath m out s =
     (let c = \<lparr>bus_name = clientBusName, object_path = clientObjPath,
                interface_name = clientBusName, method_name = m, body = out\<rparr>
      in (session_call pf c, effect (BusCall c) s))"

text \<open>
  The JavaScript engine is a parameter. Compiling the text either throws or gives a
  function; calling that function with the \<open>print\<close> capability runs the script on the
  application and ends with a promise that is fulfilled with a value (given by its text),
  is rejected with an error, or stays pending.
\<close>

datatype outcome = Resolved string | Rejected js_error | Pending

type_synonym script =
  "(string \<Rightarrow> app \<Rightarrow> js_error option \<times> app) \<Rightarrow> app \<Rightarrow> outcome \<times> app"

type_synonym engine = "string \<Rightarrow> js_error + script"

text \<open>The text handed to \<open>Function\<close> (lines 294-296).\<close>

definition function_text :: "string \<Rightarrow> string" where
  "function_text js =
     ''return (async function(print) {\<newline>                ''
     @ (if CHR '';'' \<in> set js then js else ''return '' @ js)
     @ ''\<newline>            })''"

text \<open>
  The handler given to \<open>catch\<close> (lines 306-308). An error it throws itself is a rejection
  nobody handles.
\<close>

definition on_rejected ::
  "platform \<Rightarrow> string option \<Rightarrow> string option \<Rightarrow> js_error \<Rightarrow> app \<Rightarrow> app" where
  "on_rejected pf clientBusName clientObjPath err s =
     (if truthy clientBusName \<and> truthy clientObjPath
      then (case dbus pf clientBusName clientObjPath Return (error_text err) s of
              (None, s1) \<Rightarrow> s1
            | (Some e, s1) \<Rightarrow> effect (Unhandled e) s1)
      else effect (LogError err) s)"

text \<open>
  \<open>RunJs\<close> (lines 280-309), with the promise run to its end. Inside the method the name
  \<open>print\<close> is the constant of line 290, the bus call \<open>Print\<close>; the handler given to \<open>then\<close>
  (lines 303-305) calls that constant. An error thrown while answering a compilation
  failure leaves the method.
\<close>

definition RunJs ::
  "platform \<Rightarrow> engine \<Rightarrow> string \<Rightarrow> string option \<Rightarrow> string option \<Rightarrow> app
     \<Rightarrow> js_error option \<times> app" where
  "RunJs pf eng js clientBusName clientObjPath s =
     (let response = dbus pf clientBusName clientObjPath Return;
          print = dbus pf clientBusName clientObjPath Print;
          client = (truthy clientBusName \<and> truthy clientObjPath)
      in case eng (function_text js) of
           Inl error \<Rightarrow>
             if client then response (error_text error) s else (None, effect (LogError error) s)
         | Inr fn \<Rightarrow>
             (case fn print s of
                (Pending, s1) \<Rightarrow> (None, s1)
              | (Rejected err, s1) \<Rightarrow> (None, on_rejected pf clientBusName clientObjPath err s1)
              | (Resolved out, s1) \<Rightarrow>
                  (case (if client then response out s1 else print out s1) of
                     (None, s2) \<Rightarrow> (None, s2)
                   | (Some err, s2) \<Rightarrow>
                       (None, on_rejected pf clientBusName clientObjPath err s2))))"

subsection \<open>A concrete application\<close>

text \<open>
  Four registered windows, each registered by \<open>addWindow\<close> once: \<open>bar\<close> is visible and
  its close is delayed by 100 ms, \<open>menu\<close> is hidden and its close is delayed by 50 ms,
  \<open>dock\<close> is visible with a delay of 0, and \<open>osd\<close> is visible and has no entry in the
  delay table. Object 3 is a second window named \<open>bar\<close> that is not registered.
\<close>

definition blank_window :: gtk_window where
  "blank_window = \<lparr>wname = [], shown = ''[object instance wrapper GIName:Gtk.Window]'',
                    visible = False, notify_handlers = 0\<rparr>"

definition shell_store :: "handle \<Rightarrow> gtk_window" where
  "shell_store =
     (\<lambda>_. blank_window)
       (0 := blank_window\<lparr>wname := ''bar'', visible := True, notify_handlers := 1\<rparr>,
        1 := blank_window\<lparr>wname := ''menu'', notify_handlers := 1\<rparr>,
        2 := blank_window\<lparr>wname := ''dock'', visible := True, notify_handlers := 1\<rparr>,
        3 := blank_window\<lparr>wname := ''bar''\<rparr>,
        4 := blank_window\<lparr>wname := ''osd'', visible := True, notify_handlers := 1\<rparr>)"

definition shell_delays :: "string \<rightharpoonup> nat" where
  "shell_delays = [''bar'' \<mapsto> 100, ''menu'' \<mapsto> 50, ''dock'' \<mapsto> 0]"

definition shell :: app where
  "shell =
     \<lparr>store = shell_store,
      app_windows = [''bar'' \<mapsto> 0, ''menu'' \<mapsto> 1, ''dock'' \<mapsto> 2, ''osd'' \<mapsto> 4],
      app_closeDelay = Some shell_delays,
      app_cssProviders = [],
      app_configPath = ''/home/user/.config/ags/config.js'',
      app_configDir = ''/home/user/.config/ags'',
      listeners = 0,
      interval_of_object = Inr 0,
      timers = [],
      trace = []\<rparr>"

text \<open>The same application 40 ms after a request to close \<open>bar\<close>.\<close>

definition closing :: app where
  "closing = shell\<lparr>timers := [(60, 0)], trace := [Emit (WindowToggled ''bar'' False)]\<rparr>"


text \<open>The application before anything was loaded.\<close>

definition fresh :: app where
  "fresh = shell\<lparr>app_windows := Map.empty, app_closeDelay := None\<rparr>"

text \<open>A platform with a screen, on which no style sheet and no bus call fails.\<close>

definition desktop :: platform where
  "desktop = \<lparr>has_screen = True, load_from_path = (\<lambda>_. None), session_call = (\<lambda>_. None)\<rparr>"

text \<open>
  An engine that knows one script: the text \<open>RunJs\<close> builds for \<open>1+1\<close>, which it fulfils
  with 2. Every other text is a syntax error to it.
\<close>

definition adder :: engine where
  "adder src =
     (if src = ''return (async function(print) {\<newline>                return 1+1\<newline>            })''
      then Inr (\<lambda>print s. (Resolved ''2'', s))
      else Inl (JsError ''SyntaxError'' ''unexpected token''))"


text \<open>A configuration with nothing in it.\<close>

definition empty_config :: config where
  "empty_config =
     \<lparr>windows = None, style = None, icons = None, onWindowToggled = False,
      onConfigParsed = None, closeWindowDelay = None, notificationPopupTimeout = None,
      notificationForceTimeout = None, cacheNotificationActions = None,
      cacheCoverArt = None, maxStreamVolume = None\<rparr>"

section \<open>Properties\<close>

subsection \<open>Showing and hiding\<close>

lemma gtk_hide_fields:
  "timers (gtk_hide h s) = timers s"
  "app_windows (gtk_hide h s) = app_windows s"
  "app_closeDelay (gtk_hide h s) = app_closeDelay s"
  by (simp_all add: gtk_hide_def effect_def notify_visible_def Let_def)

lemma gtk_show_fields:
  "timers (gtk_show h s) = timers s"
  "app_windows (gtk_show h s) = app_windows s"
  "app_closeDelay (gtk_show h s) = app_closeDelay s"
  by (simp_all add: gtk_show_def effect_def notify_visible_def Let_def)

lemma visible_gtk_hide:
  "visible (store (gtk_hide h s) k) = (visible (store s k) \<and> k \<noteq> h)"
  by (simp add: gtk_hide_def effect_def notify_visible_def Let_def)

lemma visible_gtk_show:
  "visible (store (gtk_show h s) k) = (visible (store s k) \<or> k = h)"
  by (simp add: gtk_show_def effect_def notify_visible_def Let_def)

lemma store_gtk_hide:
  "store (gtk_hide h s) = (store s)(h := (store s h)\<lparr>visible := False\<rparr>)"
  by (auto simp: gtk_hide_def effect_def notify_visible_def Let_def fun_eq_iff)

lemma trace_gtk_hide:
  "trace (gtk_hide h s) =
     trace s @ GtkHide h #
       (if visible (store s h)
        then replicate (notify_handlers (store s h))
               (Emit (WindowToggled (wname (store s h)) False))
        else [])"
  by (simp add: gtk_hide_def effect_def notify_visible_def Let_def)

lemma gtk_show_visible:
  "visible (store s h) \<Longrightarrow> gtk_show h s = s\<lparr>trace := trace s @ [GtkShow h]\<rparr>"
  by (simp add: gtk_show_def effect_def Let_def)

subsection \<open>Timers that come due\<close>

lemma visible_hides:
  "visible (store (hides xs s) k) = (visible (store s k) \<and> k \<notin> snd ` set xs)"
  by (induction xs arbitrary: s) (auto simp: visible_gtk_hide)

lemma store_hides_cong:
  "store s = store s' \<Longrightarrow> store (hides xs s) = store (hides xs s')"
  by (induction xs arbitrary: s s') (simp_all add: store_gtk_hide)

lemma count_hides:
  "count_list (trace (hides xs s)) (GtkHide h) =
     count_list (trace s) (GtkHide h) + length (filter (\<lambda>tm. snd tm = h) xs)"
  by (induction xs arbitrary: s) (auto simp: trace_gtk_hide)

lemma visible_elapse:
  "visible (store (elapse t s) k) =
     (visible (store s k) \<and> (\<forall>tm \<in> set (timers s). snd tm = k \<longrightarrow> \<not> due t tm))"
  by (auto simp: elapse_def visible_hides)

lemma count_elapse:
  "count_list (trace (elapse t s)) (GtkHide h) =
     count_list (trace s) (GtkHide h)
       + length (filter (\<lambda>tm. snd tm = h \<and> due t tm) (timers s))"
  by (simp add: elapse_def count_hides filter_sort conj_commute)

lemma due_timer_counted:
  assumes "(r, h) \<in> set xs" and "r \<le> t"
  shows "1 \<le> length (filter (\<lambda>tm. snd tm = h \<and> due t tm) xs)"
proof -
  have "(r, h) \<in> set (filter (\<lambda>tm. snd tm = h \<and> due t tm) xs)"
    using assms by (simp add: due_def)
  then have "filter (\<lambda>tm. snd tm = h \<and> due t tm) xs \<noteq> []"
    by (metis empty_iff empty_set)
  then show ?thesis
    by (simp add: Suc_le_eq)
qed

subsection \<open>Opening and closing\<close>

lemma closeWindow_delayed:
  assumes "app_windows s name = Some h" and "visible (store s h)"
    and "app_closeDelay s = Some tbl" and "tbl name = Some d" and "0 < d"
  shows "closeWindow name s = Inr (emit (WindowToggled name False) (timeout d h s))"
  using assms by (simp add: closeWindow_def getWindow_def get_property_def)

lemma scheduled_fields:
  "timers (emit (WindowToggled name False) (timeout d h s)) = timers s @ [(d, h)]"
  "trace (emit (WindowToggled name False) (timeout d h s)) =
     trace s @ [Emit (WindowToggled name False)]"
  "store (emit (WindowToggled name False) (timeout d h s)) = store s"
  "app_windows (emit (WindowToggled name False) (timeout d h s)) = app_windows s"
  by (simp_all add: emit_def effect_def timeout_def)

lemma closeWindow_immediate:
  assumes "app_windows s name = Some h" and "visible (store s h)"
    and "app_closeDelay s = Some tbl"
    and "tbl name = Some 0 \<or> tbl name = None \<and> name \<notin> set object_prototype"
  shows "closeWindow name s = Inr (gtk_hide h s)"
  using assms by (auto simp: closeWindow_def getWindow_def get_property_def)

lemma closeWindow_keeps_registry:
  assumes "closeWindow name s = Inr s'"
  shows "app_windows s' = app_windows s"
  using assms
  by (auto simp: closeWindow_def getWindow_def effect_def gtk_hide_fields scheduled_fields
      split: option.splits if_splits js_property.splits sum.splits)

lemma closeWindow_hidden:
  assumes "app_windows s name = Some h" and "\<not> visible (store s h)"
  shows "closeWindow name s = Inr s"
  using assms by (simp add: closeWindow_def getWindow_def)

lemma openWindow_visible:
  assumes "app_windows s name = Some h" and "visible (store s h)"
  shows "openWindow name s = s\<lparr>trace := trace s @ [GtkShow h]\<rparr>"
  using assms by (simp add: openWindow_def getWindow_def gtk_show_visible)

lemma addWindow_new:
  assumes "wname (store s h) = name" and "name \<noteq> []" and "app_windows s name = None"
  shows "addWindow (Window h) s =
           s\<lparr>store := (store s)
                (h := (store s h)\<lparr>notify_handlers := Suc (notify_handlers (store s h))\<rparr>),
              app_windows := (app_windows s)(name \<mapsto> h)\<rparr>"
  using assms by (simp add: addWindow_def Let_def)

lemma addWindow_known:
  assumes "wname (store s h) = name" and "name \<noteq> []" and "app_windows s name = Some k"
  shows "addWindow (Window h) s =
           s\<lparr>store := (store s)
                (h := (store s h)\<lparr>notify_handlers := Suc (notify_handlers (store s h))\<rparr>),
              trace := trace s @ [ConsoleError (''There is already a window named'' @ name), Quit]\<rparr>"
  using assms by (simp add: addWindow_def Let_def effect_def)

lemmas shell_defs =
  shell_def shell_store_def shell_delays_def closing_def blank_window_def
  get_property_def object_prototype_def

subsection \<open>Closing with a delay\<close>

text \<open>
  Claim C7. For a visible window whose name has a delay \<open>d > 0\<close>, a close request returns
  with \<open>window-toggled(name, false)\<close> emitted and a timer of \<open>d\<close> ms scheduled, and with
  the window still visible. As long as less than \<open>d\<close> ms have passed, the request has
  changed no window (so the window is still visible unless a timer that was pending before
  hides it); once \<open>d\<close> ms have passed the window is hidden. For a window that is not
  visible the request changes nothing: no timer, no event.
\<close>

theorem closeWindow_delay_defers_hide:
  assumes "app_windows s name = Some h"
    and "app_closeDelay s = Some tbl" and "tbl name = Some d" and "0 < d"
  shows "(visible (store s h) \<longrightarrow>
            (let s' = emit (WindowToggled name False) (timeout d h s) in
               closeWindow name s = Inr s'
             \<and> trace s' = trace s @ [Emit (WindowToggled name False)]
             \<and> timers s' = timers s @ [(d, h)]
             \<and> visible (store s' h)
             \<and> (t < d \<longrightarrow> store (elapse t s') = store (elapse t s))
             \<and> (t < d \<and> h \<notin> snd ` set (timers s) \<longrightarrow> visible (store (elapse t s') h))
             \<and> (d \<le> t \<longrightarrow> \<not> visible (store (elapse t s') h))))
       \<and> (\<not> visible (store s h) \<longrightarrow> closeWindow name s = Inr s)"
proof (intro conjI impI)
  assume v: "visible (store s h)"
  define s' where "s' = emit (WindowToggled name False) (timeout d h s)"
  have c: "closeWindow name s = Inr s'"
    unfolding s'_def using assms(1) v assms(2-4) by (rule closeWindow_delayed)
  have f: "trace s' = trace s @ [Emit (WindowToggled name False)]"
    "timers s' = timers s @ [(d, h)]" "store s' = store s"
    by (simp_all add: s'_def scheduled_fields)
  have same: "store (elapse t s') = store (elapse t s)" if "t < d"
  proof -
    have "filter (due t) (timers s') = filter (due t) (timers s)"
      using that by (simp add: f due_def)
    then show ?thesis
      unfolding elapse_def by (simp only:) (rule store_hides_cong, simp add: f)
  qed
  have stay: "visible (store (elapse t s') h)" if "t < d \<and> h \<notin> snd ` set (timers s)"
  proof -
    have "visible (store (elapse t s) h)"
      using that v by (auto simp: visible_elapse)
    then show ?thesis using that by (simp add: same)
  qed
  have gone: "\<not> visible (store (elapse t s') h)" if "d \<le> t"
    using that by (simp add: visible_elapse f due_def)
  show "let s' = emit (WindowToggled name False) (timeout d h s) in
               closeWindow name s = Inr s'
             \<and> trace s' = trace s @ [Emit (WindowToggled name False)]
             \<and> timers s' = timers s @ [(d, h)]
             \<and> visible (store s' h)
             \<and> (t < d \<longrightarrow> store (elapse t s') = store (elapse t s))
             \<and> (t < d \<and> h \<notin> snd ` set (timers s) \<longrightarrow> visible (store (elapse t s') h))
             \<and> (d \<le> t \<longrightarrow> \<not> visible (store (elapse t s') h))"
    unfolding Let_def s'_def [symmetric]
    using c f v same stay gone by simp
next
  assume "\<not> visible (store s h)"
  with assms(1) show "closeWindow name s = Inr s" by (rule closeWindow_hidden)
qed

text \<open>
  On the concrete application: closing \<open>bar\<close> (delay 100 ms) emits the event at once, the
  window is visible after 99 ms and hidden after 100 ms; closing the hidden \<open>menu\<close>
  (delay 50 ms) changes nothing.
\<close>

theorem closeWindow_delay_defers_hide_witness:
  "closeWindow ''bar'' shell =
     Inr (shell\<lparr>timers := [(100, 0)], trace := [Emit (WindowToggled ''bar'' False)]\<rparr>)
   \<and> visible (store (elapse 99
        (shell\<lparr>timers := [(100, 0)], trace := [Emit (WindowToggled ''bar'' False)]\<rparr>)) 0)
   \<and> \<not> visible (store (elapse 100
        (shell\<lparr>timers := [(100, 0)], trace := [Emit (WindowToggled ''bar'' False)]\<rparr>)) 0)
   \<and> closeWindow ''menu'' shell = Inr shell"
proof -
  have sched: "emit (WindowToggled ''bar'' False) (timeout 100 0 shell) =
      shell\<lparr>timers := [(100, 0)], trace := [Emit (WindowToggled ''bar'' False)]\<rparr>"
    by (simp add: emit_def effect_def timeout_def shell_def)
  have bar: "app_windows shell ''bar'' = Some 0" "app_closeDelay shell = Some shell_delays"
    "shell_delays ''bar'' = Some 100" "visible (store shell 0)" "0 \<notin> snd ` set (timers shell)"
    by (simp_all add: shell_defs)
  have menu: "app_windows shell ''menu'' = Some 1" "shell_delays ''menu'' = Some 50"
    "\<not> visible (store shell 1)"
    by (simp_all add: shell_defs)
  show ?thesis
    using closeWindow_delay_defers_hide [OF bar(1-3), of 99]
      closeWindow_delay_defers_hide [OF bar(1-3), of 100]
      closeWindow_delay_defers_hide [OF menu(1) bar(2) menu(2), of 0]
      bar(4,5) menu(3)
    by (auto simp: Let_def sched)
qed




text \<open>
  Claim C1, as the code has it. A close request for a visible window with a delay
  \<open>d > 0\<close> that comes while an earlier delayed close of the same window is pending
  removes nothing: the earlier timer stays in the queue, one more timer is added and
  \<open>window-toggled(name, false)\<close> is emitted once more. Once both timers are due, the hide
  action has run at least twice.
\<close>

theorem closeWindow_while_pending_adds_timer:
  assumes "app_windows s name = Some h" and "visible (store s h)"
    and "app_closeDelay s = Some tbl" and "tbl name = Some d" and "0 < d"
    and "(r, h) \<in> set (timers s)" and "r \<le> t" and "d \<le> t"
  shows "closeWindow name s = Inr (emit (WindowToggled name False) (timeout d h s))
       \<and> timers (emit (WindowToggled name False) (timeout d h s)) = timers s @ [(d, h)]
       \<and> trace (emit (WindowToggled name False) (timeout d h s)) =
           trace s @ [Emit (WindowToggled name False)]
       \<and> count_list (trace s) (GtkHide h) + 2
           \<le> count_list (trace (elapse t (emit (WindowToggled name False) (timeout d h s))))
               (GtkHide h)"
proof -
  let ?s' = "emit (WindowToggled name False) (timeout d h s)"
  have c: "closeWindow name s = Inr ?s'"
    using assms(1-5) by (rule closeWindow_delayed)
  have "1 \<le> length (filter (\<lambda>tm. snd tm = h \<and> due t tm) (timers s))"
    using assms(6,7) by (rule due_timer_counted)
  moreover have "due t (d, h)"
    using assms(8) by (simp add: due_def)
  ultimately have "2 \<le> length (filter (\<lambda>tm. snd tm = h \<and> due t tm) (timers ?s'))"
    by (simp add: scheduled_fields)
  then have "count_list (trace s) (GtkHide h) + 2
      \<le> count_list (trace (elapse t ?s')) (GtkHide h)"
    by (simp add: count_elapse scheduled_fields(2))
  with c show ?thesis
    by (simp add: scheduled_fields)
qed

text \<open>
  \<open>bar\<close> is closed again 40 ms after the first request: two timers are pending, and after
  100 ms more \<open>hide\<close> has been called twice.
\<close>

theorem closeWindow_while_pending_adds_timer_witness:
  "closeWindow ''bar'' closing = Inr (emit (WindowToggled ''bar'' False) (timeout 100 0 closing))
   \<and> timers (emit (WindowToggled ''bar'' False) (timeout 100 0 closing)) = [(60, 0), (100, 0)]
   \<and> trace (emit (WindowToggled ''bar'' False) (timeout 100 0 closing)) =
       [Emit (WindowToggled ''bar'' False), Emit (WindowToggled ''bar'' False)]
   \<and> 2 \<le> count_list
         (trace (elapse 100 (emit (WindowToggled ''bar'' False) (timeout 100 0 closing))))
         (GtkHide 0)"
proof -
  have bar: "app_windows closing ''bar'' = Some 0" "visible (store closing 0)"
    "app_closeDelay closing = Some shell_delays" "shell_delays ''bar'' = Some 100"
    "(0::nat) < 100" "(60, 0) \<in> set (timers closing)" "(60::nat) \<le> 100" "(100::nat) \<le> 100"
    by (simp_all add: shell_defs)
  have w: "timers closing = [(60, 0)]" "trace closing = [Emit (WindowToggled ''bar'' False)]"
    by (simp_all add: shell_defs)
  show ?thesis
    using closeWindow_while_pending_adds_timer [OF bar]
    by (simp add: w)
qed

text \<open>
  The claim as the spec states it fails: the second request for \<open>bar\<close> leaves two timers
  in the queue and a second event in the trace, and both timers call \<open>hide\<close>.
\<close>

theorem closeWindow_while_pending_counterexample:
  "closeWindow ''bar'' closing =
     Inr (closing\<lparr>timers := [(60, 0), (100, 0)],
                  trace := [Emit (WindowToggled ''bar'' False),
                            Emit (WindowToggled ''bar'' False)]\<rparr>)
   \<and> trace (elapse 100
        (closing\<lparr>timers := [(60, 0), (100, 0)],
                  trace := [Emit (WindowToggled ''bar'' False),
                            Emit (WindowToggled ''bar'' False)]\<rparr>)) =
       [Emit (WindowToggled ''bar'' False), Emit (WindowToggled ''bar'' False),
        GtkHide 0, Emit (WindowToggled ''bar'' False), GtkHide 0]"
  by (simp add: closeWindow_def getWindow_def emit_def effect_def timeout_def elapse_def
      due_def gtk_hide_def notify_visible_def Let_def shell_defs)

text \<open>
  Claim C6, as the code has it. \<open>openWindow\<close> for a window that is still visible, with a
  delayed close pending, only calls \<open>show\<close>, which changes nothing: the timer stays in
  the queue, and once it is due the window is hidden by it.
\<close>

theorem openWindow_keeps_pending_timer:
  assumes "app_windows s name = Some h" and "visible (store s h)"
    and "(r, h) \<in> set (timers s)" and "r \<le> t"
  shows "openWindow name s = s\<lparr>trace := trace s @ [GtkShow h]\<rparr>
       \<and> timers (openWindow name s) = timers s
       \<and> \<not> visible (store (elapse t (openWindow name s)) h)
       \<and> count_list (trace s) (GtkHide h)
           < count_list (trace (elapse t (openWindow name s))) (GtkHide h)"
proof -
  let ?s' = "s\<lparr>trace := trace s @ [GtkShow h]\<rparr>"
  have o: "openWindow name s = ?s'"
    using assms(1,2) by (rule openWindow_visible)
  have "1 \<le> length (filter (\<lambda>tm. snd tm = h \<and> due t tm) (timers s))"
    using assms(3,4) by (rule due_timer_counted)
  moreover have "\<not> visible (store (elapse t ?s') h)"
    using assms(3,4) by (auto simp: visible_elapse due_def intro!: bexI [of _ "(r, h)"])
  ultimately show ?thesis
    unfolding o by (auto simp: count_elapse Suc_le_eq)
qed

text \<open>\<open>bar\<close> is opened 40 ms after the close request; 60 ms later it is hidden all the same.\<close>

theorem openWindow_keeps_pending_timer_witness:
  "openWindow ''bar'' closing = closing\<lparr>trace := trace closing @ [GtkShow 0]\<rparr>
   \<and> timers (openWindow ''bar'' closing) = [(60, 0)]
   \<and> \<not> visible (store (elapse 60 (openWindow ''bar'' closing)) 0)
   \<and> 0 < count_list (trace (elapse 60 (openWindow ''bar'' closing))) (GtkHide 0)"
proof -
  have bar: "app_windows closing ''bar'' = Some 0" "visible (store closing 0)"
    "(60, 0) \<in> set (timers closing)" "(60::nat) \<le> 60"
    by (simp_all add: shell_defs)
  have w: "timers closing = [(60, 0)]" "count_list (trace closing) (GtkHide 0) = 0"
    by (simp_all add: shell_defs)
  show ?thesis
    using openWindow_keeps_pending_timer [OF bar]
    by (auto simp: w)
qed

text \<open>
  The claim as the spec states it fails: after the close request and the \<open>open\<close>, the
  timer that was to be cancelled calls \<open>hide\<close>, and the window is hidden.
\<close>

theorem openWindow_cancels_counterexample:
  "timers (openWindow ''bar'' closing) = [(60, 0)]
   \<and> trace (elapse 60 (openWindow ''bar'' closing)) =
       [Emit (WindowToggled ''bar'' False), GtkShow 0, GtkHide 0,
        Emit (WindowToggled ''bar'' False)]
   \<and> \<not> visible (store (elapse 60 (openWindow ''bar'' closing)) 0)"
  by (simp add: openWindow_def getWindow_def effect_def elapse_def
      due_def gtk_hide_def gtk_show_def notify_visible_def Let_def shell_defs)

subsection \<open>Registering windows\<close>

text \<open>
  Claim C3. Two calls of \<open>addWindow\<close> with windows of the same non-empty name, the name
  not being registered before: the first enters its window into the registry and does not
  quit; the second logs the duplicate, leaves the registry as the first left it, and calls
  \<open>quit\<close>.
\<close>

theorem addWindow_duplicate_quits:
  assumes "wname (store s h1) = name" and "wname (store s h2) = name" and "name \<noteq> []"
    and "app_windows s name = None"
  shows "app_windows (addWindow (Window h1) s) = (app_windows s)(name \<mapsto> h1)
       \<and> trace (addWindow (Window h1) s) = trace s
       \<and> app_windows (addWindow (Window h2) (addWindow (Window h1) s)) =
           (app_windows s)(name \<mapsto> h1)
       \<and> trace (addWindow (Window h2) (addWindow (Window h1) s)) =
           trace s @ [ConsoleError (''There is already a window named'' @ name), Quit]"
proof -
  let ?s1 = "addWindow (Window h1) s"
  have s1: "?s1 =
      s\<lparr>store := (store s)
           (h1 := (store s h1)\<lparr>notify_handlers := Suc (notify_handlers (store s h1))\<rparr>),
         app_windows := (app_windows s)(name \<mapsto> h1)\<rparr>"
    using assms(1,3,4) by (rule addWindow_new)
  have n2: "wname (store ?s1 h2) = name"
    using assms(1,2) by (simp add: s1)
  have r2: "app_windows ?s1 name = Some h1"
    by (simp add: s1)
  have s2: "addWindow (Window h2) ?s1 =
      ?s1\<lparr>store := (store ?s1)
             (h2 := (store ?s1 h2)\<lparr>notify_handlers := Suc (notify_handlers (store ?s1 h2))\<rparr>),
           trace := trace ?s1 @ [ConsoleError (''There is already a window named'' @ name), Quit]\<rparr>"
    using n2 assms(3) r2 by (rule addWindow_known)
  have "app_windows (addWindow (Window h2) ?s1) = app_windows ?s1"
    and "trace (addWindow (Window h2) ?s1) =
           trace ?s1 @ [ConsoleError (''There is already a window named'' @ name), Quit]"
    by (simp_all add: s2)
  moreover have "app_windows ?s1 = (app_windows s)(name \<mapsto> h1)" and "trace ?s1 = trace s"
    by (simp_all add: s1)
  ultimately show ?thesis by simp
qed

text \<open>The two windows named \<open>bar\<close>, objects 0 and 3, added to the empty registry.\<close>

theorem addWindow_duplicate_quits_witness:
  "app_windows (addWindow (Window 0) fresh) ''bar'' = Some 0
   \<and> trace (addWindow (Window 0) fresh) = []
   \<and> app_windows (addWindow (Window 3) (addWindow (Window 0) fresh)) ''bar'' = Some 0
   \<and> trace (addWindow (Window 3) (addWindow (Window 0) fresh)) =
       [ConsoleError ''There is already a window namedbar'', Quit]"
proof -
  have bar: "wname (store fresh 0) = ''bar''" "wname (store fresh 3) = ''bar''"
    "''bar'' \<noteq> []" "app_windows fresh ''bar'' = None"
    by (simp_all add: fresh_def shell_defs)
  have w: "trace fresh = []"
    by (simp add: fresh_def shell_defs)
  show ?thesis
    using addWindow_duplicate_quits [OF bar]
    by (simp add: w)
qed

subsection \<open>The bus method ToggleWindow\<close>

text \<open>
  Claim C8, as the code has it. For a name that is not registered, \<open>ToggleWindow\<close> logs
  the missing window twice and returns \<open>undefined\<close>. For a registered window it runs
  \<open>toggleWindow\<close> and, when that returns, returns the window's visibility in the state
  that \<open>toggleWindow\<close> left, as \<open>true\<close> or \<open>false\<close>. A hidden window is opened and the
  answer is \<open>true\<close>. A visible window is closed by \<open>closeWindow\<close>: the answer is \<open>true\<close>
  when its close is delayed, since the window is still visible, and \<open>false\<close> when the
  window is hidden at once.
\<close>

theorem ToggleWindow_reports_visibility:
  "(app_windows s name = None \<longrightarrow>
      ToggleWindow name s =
        Inr (''undefined'',
             s\<lparr>trace := trace s @ [ConsoleError (''There is no window named '' @ name),
                                     ConsoleError (''There is no window named '' @ name)]\<rparr>))
   \<and> (app_windows s name = Some h \<and> \<not> visible (store s h) \<longrightarrow>
        toggleWindow name s = Inr (None, openWindow name s)
        \<and> visible (store (openWindow name s) h)
        \<and> ToggleWindow name s = Inr (''true'', openWindow name s))
   \<and> (app_windows s name = Some h \<and> visible (store s h) \<and> closeWindow name s = Inr s' \<longrightarrow>
        toggleWindow name s = Inr (None, s')
        \<and> ToggleWindow name s =
            Inr (if visible (store s' h) then ''true'' else ''false'', s'))
   \<and> (app_windows s name = Some h \<and> visible (store s h) \<and> app_closeDelay s = Some tbl
        \<and> tbl name = Some d \<and> d \<noteq> 0 \<longrightarrow>
        ToggleWindow name s =
          Inr (''true'', emit (WindowToggled name False) (timeout d h s)))
   \<and> (app_windows s name = Some h \<and> visible (store s h) \<and> app_closeDelay s = Some tbl
        \<and> (tbl name = Some 0 \<or> tbl name = None \<and> name \<notin> set object_prototype) \<longrightarrow>
        ToggleWindow name s = Inr (''false'', gtk_hide h s))"
proof -
  have unknown: "ToggleWindow name s =
        Inr (''undefined'',
             s\<lparr>trace := trace s @ [ConsoleError (''There is no window named '' @ name),
                                     ConsoleError (''There is no window named '' @ name)]\<rparr>)"
    if "app_windows s name = None"
    using that by (simp add: ToggleWindow_def toggleWindow_def getWindow_def effect_def)
  have hidden: "toggleWindow name s = Inr (None, openWindow name s)
        \<and> visible (store (openWindow name s) h)
        \<and> ToggleWindow name s = Inr (''true'', openWindow name s)"
    if a: "app_windows s name = Some h \<and> \<not> visible (store s h)"
  proof -
    have o: "openWindow name s = gtk_show h s"
      using a by (simp add: openWindow_def getWindow_def)
    have t: "toggleWindow name s = Inr (None, openWindow name s)"
      using a by (simp add: toggleWindow_def getWindow_def)
    have v: "visible (store (openWindow name s) h)"
      by (simp add: o visible_gtk_show)
    have "ToggleWindow name s = Inr (''true'', openWindow name s)"
      using a v by (simp add: ToggleWindow_def t getWindow_def o gtk_show_fields)
    with t v show ?thesis by simp
  qed
  have shown: "toggleWindow name s = Inr (None, s')
        \<and> ToggleWindow name s = Inr (if visible (store s' h) then ''true'' else ''false'', s')"
    if a: "app_windows s name = Some h \<and> visible (store s h) \<and> closeWindow name s = Inr s'"
    for s'
  proof -
    have r: "app_windows s' name = Some h"
      using a closeWindow_keeps_registry [of name s s'] by simp
    have t: "toggleWindow name s = Inr (None, s')"
      using a by (simp add: toggleWindow_def getWindow_def)
    have "ToggleWindow name s = Inr (if visible (store s' h) then ''true'' else ''false'', s')"
      using r by (simp add: ToggleWindow_def t getWindow_def)
    with t show ?thesis by simp
  qed
  have delayed: "ToggleWindow name s =
          Inr (''true'', emit (WindowToggled name False) (timeout d h s))"
    if a: "app_windows s name = Some h \<and> visible (store s h) \<and> app_closeDelay s = Some tbl
        \<and> tbl name = Some d \<and> d \<noteq> 0"
  proof -
    have "closeWindow name s = Inr (emit (WindowToggled name False) (timeout d h s))"
      using a by (intro closeWindow_delayed [where tbl = tbl]) simp_all
    with a have "ToggleWindow name s =
        Inr (if visible (store (emit (WindowToggled name False) (timeout d h s)) h)
             then ''true'' else ''false'', emit (WindowToggled name False) (timeout d h s))"
      using shown by blast
    with a show ?thesis by (simp add: scheduled_fields)
  qed
  have now: "ToggleWindow name s = Inr (''false'', gtk_hide h s)"
    if a: "app_windows s name = Some h \<and> visible (store s h) \<and> app_closeDelay s = Some tbl
        \<and> (tbl name = Some 0 \<or> tbl name = None \<and> name \<notin> set object_prototype)"
  proof -
    have "closeWindow name s = Inr (gtk_hide h s)"
      using a by (intro closeWindow_immediate [where tbl = tbl]) simp_all
    with a have "ToggleWindow name s =
        Inr (if visible (store (gtk_hide h s) h) then ''true'' else ''false'', gtk_hide h s)"
      using shown by blast
    then show ?thesis by (simp add: visible_gtk_hide)
  qed
  from unknown hidden shown delayed now show ?thesis
    by blast
qed

text \<open>
  The hidden \<open>menu\<close> answers \<open>true\<close>, the visible \<open>dock\<close> (delay 0) answers \<open>false\<close>, the
  visible \<open>bar\<close> (delay 100 ms) answers \<open>true\<close>, being still on screen, and a name
  without a window answers \<open>undefined\<close>.
\<close>

theorem ToggleWindow_reports_visibility_witness:
  "ToggleWindow ''menu'' shell = Inr (''true'', openWindow ''menu'' shell)
   \<and> ToggleWindow ''dock'' shell = Inr (''false'', gtk_hide 2 shell)
   \<and> ToggleWindow ''bar'' shell =
       Inr (''true'', emit (WindowToggled ''bar'' False) (timeout 100 0 shell))
   \<and> ToggleWindow ''nope'' shell =
       Inr (''undefined'',
            shell\<lparr>trace := [ConsoleError ''There is no window named nope'',
                             ConsoleError ''There is no window named nope'']\<rparr>)"
proof -
  have d: "app_closeDelay shell = Some shell_delays" "trace shell = []"
    by (simp_all add: shell_defs)
  have menu: "app_windows shell ''menu'' = Some 1" "\<not> visible (store shell 1)"
    by (simp_all add: shell_defs)
  have dock: "app_windows shell ''dock'' = Some 2" "visible (store shell 2)"
    "shell_delays ''dock'' = Some 0"
    by (simp_all add: shell_defs)
  have bar: "app_windows shell ''bar'' = Some 0" "visible (store shell 0)"
    "shell_delays ''bar'' = Some 100"
    by (simp_all add: shell_defs)
  have nope: "app_windows shell ''nope'' = None"
    by (simp add: shell_defs)
  have "ToggleWindow ''menu'' shell = Inr (''true'', openWindow ''menu'' shell)"
    using ToggleWindow_reports_visibility [of shell "''menu''" 1] menu by simp
  moreover have "ToggleWindow ''dock'' shell = Inr (''false'', gtk_hide 2 shell)"
    using ToggleWindow_reports_visibility [of shell "''dock''" 2 _ shell_delays] dock d
    by simp
  moreover have "ToggleWindow ''bar'' shell =
       Inr (''true'', emit (WindowToggled ''bar'' False) (timeout 100 0 shell))"
    using ToggleWindow_reports_visibility [of shell "''bar''" 0 _ shell_delays 100] bar d
    by simp
  moreover have "ToggleWindow ''nope'' shell =
       Inr (''undefined'',
            shell\<lparr>trace := [ConsoleError ''There is no window named nope'',
                             ConsoleError ''There is no window named nope'']\<rparr>)"
    using ToggleWindow_reports_visibility [of shell "''nope''"] nope d
    by simp
  ultimately show ?thesis by simp
qed

text \<open>
  The claim as stated, for every window name, fails: a name without a window is answered
  by \<open>undefined\<close>, which is no visibility, and for the visible \<open>bar\<close> before the delay
  table is assigned the method throws and returns nothing.
\<close>

theorem ToggleWindow_every_name_counterexample:
  "ToggleWindow ''nope'' shell =
     Inr (''undefined'',
          shell\<lparr>trace := [ConsoleError ''There is no window named nope'',
                           ConsoleError ''There is no window named nope'']\<rparr>)
   \<and> ToggleWindow ''bar'' (shell\<lparr>app_closeDelay := None\<rparr>) =
       Inl (JsError ''TypeError'' ''this._closeDelay is undefined'')"
  by (simp add: ToggleWindow_def toggleWindow_def closeWindow_def getWindow_def effect_def
      shell_defs)

subsection \<open>Deprecated options\<close>

text \<open>
  Claim C9. Every legacy field that is present should be answered by a warning that names
  that field and its replacement. For a configuration whose only legacy field is
  \<open>maxStreamVolume\<close> the one warning of \<open>deprecated\<close> names \<open>cacheCoverArt\<close> (line 29).
  Loading goes on: nothing is thrown and nothing but the warning is done.
\<close>

theorem deprecated_maxStreamVolume_names_cacheCoverArt:
  "deprecated (empty_config\<lparr>maxStreamVolume := Some 100\<rparr>) shell =
     shell\<lparr>trace :=
       [ConsoleWarn
         ''cacheCoverArt config option has been removed: use Audio.maxStreamVolume instead'']\<rparr>"
  by (simp add: deprecated_def warning_def effect_def empty_config_def shell_def)

subsection \<open>Failures of the load\<close>

lemma load_failed_not_found:
  assumes "ename e = ''ImportError''"
    and "str_includes (emessage e) (''Unable to load file from: file://'' @ app_configPath s)"
  shows "load_failed e s =
           s\<lparr>trace := trace s @
              [LogError e,
               PrintOut (''config file not found: '' @ [CHR 0x22] @ app_configPath s @ [CHR 0x22]),
               Quit]\<rparr>"
  using assms by (simp add: load_failed_def effect_def Let_def)

lemma load_failed_other:
  assumes "\<not> (ename e = ''ImportError''
    \<and> str_includes (emessage e) (''Unable to load file from: file://'' @ app_configPath s))"
  shows "load_failed e s = s\<lparr>trace := trace s @ [LogError e]\<rparr>"
  using assms by (auto simp: load_failed_def effect_def Let_def)

text \<open>
  Claim C5, as the code has it. An entry module without a default export is logged and
  \<open>config-parsed\<close> is emitted; nothing is registered and the process goes on. An error
  thrown by the import, or by the processing of the configuration, is logged; when it is
  the error of an entry file that was not found, the path is printed and \<open>quit\<close> is
  called; for every other error nothing more is done: the process goes on, and no
  \<open>config-parsed\<close> is emitted by the handler.
\<close>

theorem load_failure_paths:
  "load pf (Module None) s =
     s\<lparr>trace := trace s @ [ConsoleError ''Missing default export'', Emit ConfigParsed]\<rparr>
   \<and> load pf (Throws e) s = load_failed e s
   \<and> (load_config pf cfg s = (Some e, s1) \<longrightarrow> load pf (Module (Some cfg)) s = load_failed e s1)
   \<and> (ename e = ''ImportError''
        \<and> str_includes (emessage e) (''Unable to load file from: file://'' @ app_configPath s1)
      \<longrightarrow> load_failed e s1 =
            s1\<lparr>trace := trace s1 @
               [LogError e,
                PrintOut (''config file not found: '' @ [CHR 0x22] @ app_configPath s1
                          @ [CHR 0x22]),
                Quit]\<rparr>)
   \<and> (\<not> (ename e = ''ImportError''
          \<and> str_includes (emessage e) (''Unable to load file from: file://'' @ app_configPath s1))
      \<longrightarrow> load_failed e s1 = s1\<lparr>trace := trace s1 @ [LogError e]\<rparr>)"
  by (simp add: load_def emit_def effect_def load_failed_not_found load_failed_other)

text \<open>
  On the application before the load: a module without default export, a syntax error of
  the entry file, and an entry file that is not there.
\<close>

theorem load_failure_paths_witness:
  "load desktop (Module None) fresh =
     fresh\<lparr>trace := [ConsoleError ''Missing default export'', Emit ConfigParsed]\<rparr>
   \<and> load desktop (Throws (JsError ''SyntaxError'' ''unexpected token'')) fresh =
       fresh\<lparr>trace := [LogError (JsError ''SyntaxError'' ''unexpected token'')]\<rparr>
   \<and> load desktop
        (Throws (JsError ''ImportError''
           ''Unable to load file from: file:///home/user/.config/ags/config.js'')) fresh =
       fresh\<lparr>trace :=
         [LogError (JsError ''ImportError''
            ''Unable to load file from: file:///home/user/.config/ags/config.js''),
          PrintOut (''config file not found: '' @ [CHR 0x22]
                    @ ''/home/user/.config/ags/config.js'' @ [CHR 0x22]),
          Quit]\<rparr>"
proof -
  have p: "app_configPath fresh = ''/home/user/.config/ags/config.js''" "trace fresh = []"
    by (simp_all add: fresh_def shell_def)
  have a: "load desktop (Module None) fresh =
     fresh\<lparr>trace := [ConsoleError ''Missing default export'', Emit ConfigParsed]\<rparr>"
    using load_failure_paths
      [of desktop fresh "JsError ''SyntaxError'' ''unexpected token''" empty_config fresh]
    by (simp add: p)
  have b: "load desktop (Throws (JsError ''SyntaxError'' ''unexpected token'')) fresh =
       fresh\<lparr>trace := [LogError (JsError ''SyntaxError'' ''unexpected token'')]\<rparr>"
    using load_failure_paths
      [of desktop fresh "JsError ''SyntaxError'' ''unexpected token''" empty_config fresh]
    by (simp add: p)
  have c: "load desktop
        (Throws (JsError ''ImportError''
           ''Unable to load file from: file:///home/user/.config/ags/config.js'')) fresh =
       fresh\<lparr>trace :=
         [LogError (JsError ''ImportError''
            ''Unable to load file from: file:///home/user/.config/ags/config.js''),
          PrintOut (''config file not found: '' @ [CHR 0x22]
                    @ ''/home/user/.config/ags/config.js'' @ [CHR 0x22]),
          Quit]\<rparr>"
    using load_failure_paths
      [of desktop fresh "JsError ''ImportError''
           ''Unable to load file from: file:///home/user/.config/ags/config.js''"
        empty_config fresh]
    by (simp add: p)
  from a b c show ?thesis by simp
qed

text \<open>
  The claim as the spec states it fails: a syntax error of the entry file is a load
  failure other than a missing file, and no \<open>config-parsed\<close> follows it.
\<close>

theorem load_failure_counterexample:
  "Emit ConfigParsed \<notin>
     set (trace (load desktop (Throws (JsError ''SyntaxError'' ''unexpected token'')) fresh))"
  by (simp add: load_def load_failed_def effect_def Let_def fresh_def shell_def)

subsection \<open>Running scripts\<close>







text \<open>
  Claim C2. Without a caller the result of a script should go to the local output. The
  handler of line 304 calls \<open>print\<close>, which inside \<open>RunJs\<close> is the bus call of line 290:
  for \<open>1+1\<close> and no caller, the one thing done is a bus call \<open>Print\<close> with no bus name and
  no object path, and nothing is printed. Where the platform refuses such a call, the
  refusal is what is logged.
\<close>

theorem RunJs_without_client_calls_bus:
  "RunJs desktop adder ''1+1'' None None shell =
     (None, shell\<lparr>trace :=
        [BusCall \<lparr>bus_name = None, object_path = None, interface_name = None,
                  method_name = Print, body = ''2''\<rparr>]\<rparr>)
   \<and> RunJs (desktop\<lparr>session_call :=
               (\<lambda>c. if object_path c = None
                    then Some (JsError ''TypeError'' ''object path is not a string'')
                    else None)\<rparr>)
        adder ''1+1'' None None shell =
     (None, shell\<lparr>trace :=
        [BusCall \<lparr>bus_name = None, object_path = None, interface_name = None,
                  method_name = Print, body = ''2''\<rparr>,
         LogError (JsError ''TypeError'' ''object path is not a string'')]\<rparr>)"
  by (simp add: RunJs_def Let_def dbus_def on_rejected_def truthy_def effect_def
      adder_def function_text_def desktop_def shell_def)

end
